theory Spec2Isabelle
  imports Complex_Main "HOL-Library.Word" "HOL-Library.Log_Nat"
begin

section \<open>Unified Bed Leveling: mesh geometry and Z correction (ubl.h)\<close>

text \<open>
  A shallow embedding of the inline functions of class \<open>unified_bed_leveling\<close> in
  \<^verbatim>\<open>Marlin/src/feature/bedlevel/ubl/ubl.h\<close>: the cell-index and nearest-index lookups,
  \<open>calc_z0\<close>, the two single-axis helpers, \<open>get_z_correction\<close>, the index-to-position
  functions and \<open>mesh_is_valid\<close>.
\<close>

subsection \<open>The C type \<open>float\<close>\<close>

text \<open>
  A \<open>float\<close> is IEEE 754 binary32: a finite number, one of the two infinities, or
  NaN. The arithmetic on the special values follows the standard (NaN is absorbing,
  \<open>inf - inf\<close>, \<open>0 * inf\<close>, \<open>0 / 0\<close> and \<open>inf / inf\<close> are NaN, a nonzero number
  divided by zero is an infinity). On finite numbers each operation computes the exact
  real result and rounds it to binary32, to nearest with ties to even
  (\<open>binary32_round\<close>): 24 significant bits for exponents from -126 to 127, multiples
  of \<open>2^-149\<close> below that (subnormal numbers), and an infinity once the rounded
  magnitude reaches \<open>2^128\<close>. The sign of zero is not modelled: a zero divisor is
  taken to be \<open>+0\<close>. Every comparison with NaN is false. A value \<open>Fin a\<close> that
  enters from outside (a position, a mesh value, a configuration constant) is taken as
  it is; it is a binary32 number when \<open>binary32_round a = Fin a\<close>.
\<close>

datatype cfloat = Fin real | PInf | NInf | NaN

fun isnan :: "cfloat \<Rightarrow> bool" where
  "isnan NaN = True"
| "isnan _ = False"

fun is_zero :: "cfloat \<Rightarrow> bool" where
  "is_zero (Fin a) = (a = 0)"
| "is_zero _ = False"

fun is_neg :: "cfloat \<Rightarrow> bool" where
  "is_neg (Fin a) = (a < 0)"
| "is_neg NInf = True"
| "is_neg _ = False"

definition signed_inf :: "bool \<Rightarrow> cfloat" where
  "signed_inf neg = (if neg then NInf else PInf)"

text \<open>Rounding to nearest integer, ties to even.\<close>

definition round_half_even :: "real \<Rightarrow> int" where
  "round_half_even y =
     (let f = \<lfloor>y\<rfloor>; r = y - of_int f
      in if r < 1 / 2 then f else if 1 / 2 < r then f + 1 else if even f then f else f + 1)"

definition pow2 :: "int \<Rightarrow> real" where
  "pow2 e = (if 0 \<le> e then 2 ^ nat e else 1 / 2 ^ nat (- e))"

text \<open>
  The binary exponent of a nonzero number: the \<open>e\<close> with
  \<open>2^e \<le> |x| < 2^(e+1)\<close>, from the bit length of the integer part of \<open>|x|\<close>, or
  of \<open>1 / |x|\<close> rounded up when \<open>|x| < 1\<close>.
\<close>

definition float_exponent :: "real \<Rightarrow> int" where
  "float_exponent x =
     (if 1 \<le> \<bar>x\<bar> then bitlen \<lfloor>\<bar>x\<bar>\<rfloor> - 1 else - bitlen (\<lceil>1 / \<bar>x\<bar>\<rceil> - 1))"

definition binary32_round :: "real \<Rightarrow> cfloat" where
  "binary32_round x =
     (if x = 0 then Fin 0
      else
        (let e = max (float_exponent x) (- 126);
             ulp = pow2 (e - 23);
             r = of_int (round_half_even (x / ulp)) * ulp
         in if pow2 128 \<le> \<bar>r\<bar> then signed_inf (x < 0) else Fin r))"

fun fneg :: "cfloat \<Rightarrow> cfloat" where
  "fneg (Fin a) = Fin (- a)"
| "fneg PInf = NInf"
| "fneg NInf = PInf"
| "fneg NaN = NaN"

fun fadd :: "cfloat \<Rightarrow> cfloat \<Rightarrow> cfloat" where
  "fadd NaN _ = NaN"
| "fadd _ NaN = NaN"
| "fadd (Fin a) (Fin b) = binary32_round (a + b)"
| "fadd PInf NInf = NaN"
| "fadd NInf PInf = NaN"
| "fadd PInf _ = PInf"
| "fadd NInf _ = NInf"
| "fadd (Fin a) y = y"

definition fsub :: "cfloat \<Rightarrow> cfloat \<Rightarrow> cfloat" where
  "fsub x y = fadd x (fneg y)"

fun fmul :: "cfloat \<Rightarrow> cfloat \<Rightarrow> cfloat" where
  "fmul NaN _ = NaN"
| "fmul _ NaN = NaN"
| "fmul (Fin a) (Fin b) = binary32_round (a * b)"
| "fmul x y = (if is_zero x \<or> is_zero y then NaN else signed_inf (is_neg x \<noteq> is_neg y))"

fun fdiv :: "cfloat \<Rightarrow> cfloat \<Rightarrow> cfloat" where
  "fdiv NaN _ = NaN"
| "fdiv _ NaN = NaN"
| "fdiv (Fin a) (Fin b) =
     (if b \<noteq> 0 then binary32_round (a / b) else if a = 0 then NaN else signed_inf (a < 0))"
| "fdiv (Fin a) y = Fin 0"
| "fdiv x (Fin b) = signed_inf (is_neg x \<noteq> (b < 0))"
| "fdiv x y = NaN"

fun flt :: "cfloat \<Rightarrow> cfloat \<Rightarrow> bool" where
  "flt NaN _ = False"
| "flt _ NaN = False"
| "flt (Fin a) (Fin b) = (a < b)"
| "flt NInf y = (y \<noteq> NInf)"
| "flt x PInf = (x \<noteq> PInf)"
| "flt x y = False"

definition fle :: "cfloat \<Rightarrow> cfloat \<Rightarrow> bool" where
  "fle x y = (\<not> isnan x \<and> \<not> isnan y \<and> (flt x y \<or> x = y))"

definition fge :: "cfloat \<Rightarrow> cfloat \<Rightarrow> bool" where
  "fge x y = fle y x"

subsection \<open>Integer types and conversions\<close>

type_synonym int8_t = "8 word"
type_synonym uint8_t = "8 word"

text \<open>Truncation towards zero, as the conversion of a floating value to an integer does.\<close>

definition trunc :: "real \<Rightarrow> int" where
  "trunc a = (if 0 \<le> a then \<lfloor>a\<rfloor> else \<lceil>a\<rceil>)"

subsection \<open>Configuration\<close>

text \<open>
  The compile-time configuration. \<open>GRID_MAX_POINTS_X/Y\<close>, \<open>MESH_MIN_X/Y\<close>,
  \<open>MESH_MAX_X/Y\<close> and \<open>UBL_Z_RAISE_WHEN_OFF_MESH\<close> are macros of the printer's
  configuration (\<open>None\<close> when the last one is not defined). The mesh bounds are
  integer bed coordinates in the firmware's configuration; they are held here by their
  values, which a \<open>float\<close> takes without rounding as long as they are binary32
  numbers. The two position tables \<open>_mesh_index_to_xpos\<close> and
  \<open>_mesh_index_to_ypos\<close> are declared in ubl.h and defined elsewhere; they are
  parameters here, and only their entries below \<open>GRID_MAX_POINTS\<close> exist. Converting
  a floating value that does not fit \<open>int8_t\<close> (or is not a number) is undefined in
  C++; \<open>float_to_int8_undefined\<close> is whatever the platform produces then, and no
  theorem below depends on it.
\<close>

record config =
  GRID_MAX_POINTS_X :: int
  GRID_MAX_POINTS_Y :: int
  MESH_MIN_X :: real
  MESH_MAX_X :: real
  MESH_MIN_Y :: real
  MESH_MAX_Y :: real
  UBL_Z_RAISE_WHEN_OFF_MESH :: "real option"
  mesh_index_to_xpos_table :: "nat \<Rightarrow> cfloat"
  mesh_index_to_ypos_table :: "nat \<Rightarrow> cfloat"
  float_to_int8_undefined :: "cfloat \<Rightarrow> int8_t"

definition float_to_int8 :: "config \<Rightarrow> cfloat \<Rightarrow> int8_t" where
  "float_to_int8 cfg x =
     (case x of
        Fin a \<Rightarrow> if - 128 \<le> trunc a \<and> trunc a \<le> 127 then word_of_int (trunc a)
                 else float_to_int8_undefined cfg x
      | _ \<Rightarrow> float_to_int8_undefined cfg x)"

text \<open>
  \<^verbatim>\<open>#define MESH_X_DIST (float(MESH_MAX_X - (MESH_MIN_X)) / float(GRID_MAX_POINTS_X - 1))\<close>:
  the difference of the bounds and the number of cells are converted to \<open>float\<close>,
  then divided.
\<close>

definition MESH_X_DIST :: "config \<Rightarrow> cfloat" where
  "MESH_X_DIST cfg =
     fdiv (binary32_round (MESH_MAX_X cfg - MESH_MIN_X cfg))
          (binary32_round (of_int (GRID_MAX_POINTS_X cfg - 1)))"

definition MESH_Y_DIST :: "config \<Rightarrow> cfloat" where
  "MESH_Y_DIST cfg =
     fdiv (binary32_round (MESH_MAX_Y cfg - MESH_MIN_Y cfg))
          (binary32_round (of_int (GRID_MAX_POINTS_Y cfg - 1)))"

text \<open>
  Modelled from the spec: the macros \<open>RECIPROCAL\<close>, \<open>constrain\<close>, \<open>WITHIN\<close> and
  \<open>_MIN\<close> come from headers that are not part of the sources at hand. The spec
  describes them as the reciprocal that replaces a division by the cell width, the
  clamp into a range, the closed-range test and the minimum. \<open>_MIN\<close> is \<open>min\<close>.
\<close>

definition RECIPROCAL :: "cfloat \<Rightarrow> cfloat" where
  "RECIPROCAL x = fdiv (Fin 1) x"

definition constrain :: "int \<Rightarrow> int \<Rightarrow> int \<Rightarrow> int" where
  "constrain amt low high = (if amt < low then low else if amt > high then high else amt)"

definition WITHIN :: "int \<Rightarrow> int \<Rightarrow> int \<Rightarrow> bool" where
  "WITHIN n l h = (n \<ge> l \<and> n \<le> h)"

definition WITHIN_float :: "cfloat \<Rightarrow> cfloat \<Rightarrow> cfloat \<Rightarrow> bool" where
  "WITHIN_float n l h = (fge n l \<and> fle n h)"

subsection \<open>Grid geometry\<close>

definition get_cell_index_x :: "config \<Rightarrow> cfloat \<Rightarrow> int8_t" where
  "get_cell_index_x cfg x =
     (let cx = float_to_int8 cfg
                 (fmul (fsub x (Fin (MESH_MIN_X cfg))) (RECIPROCAL (MESH_X_DIST cfg)))
      in word_of_int (constrain (sint cx) 0 (GRID_MAX_POINTS_X cfg - 1)))"

definition get_cell_index_y :: "config \<Rightarrow> cfloat \<Rightarrow> int8_t" where
  "get_cell_index_y cfg y =
     (let cy = float_to_int8 cfg
                 (fmul (fsub y (Fin (MESH_MIN_Y cfg))) (RECIPROCAL (MESH_Y_DIST cfg)))
      in word_of_int (constrain (sint cy) 0 (GRID_MAX_POINTS_Y cfg - 1)))"



definition mesh_index_to_xpos :: "config \<Rightarrow> uint8_t \<Rightarrow> cfloat" where
  "mesh_index_to_xpos cfg i =
     (if uint i < GRID_MAX_POINTS_X cfg then mesh_index_to_xpos_table cfg (unat i)
      else fadd (Fin (MESH_MIN_X cfg)) (fmul (Fin (of_int (uint i))) (MESH_X_DIST cfg)))"

definition mesh_index_to_ypos :: "config \<Rightarrow> uint8_t \<Rightarrow> cfloat" where
  "mesh_index_to_ypos cfg i =
     (if uint i < GRID_MAX_POINTS_Y cfg then mesh_index_to_ypos_table cfg (unat i)
      else fadd (Fin (MESH_MIN_Y cfg)) (fmul (Fin (of_int (uint i))) (MESH_Y_DIST cfg)))"

definition calc_z0 :: "cfloat \<Rightarrow> cfloat \<Rightarrow> cfloat \<Rightarrow> cfloat \<Rightarrow> cfloat \<Rightarrow> cfloat" where
  "calc_z0 a0 a1 z1 a2 z2 = fadd z1 (fdiv (fmul (fsub z2 z1) (fsub a0 a1)) (fsub a2 a1))"

subsection \<open>Mesh storage and the reads of it\<close>

text \<open>
  The static data of the class that describes the mesh: \<open>z_values\<close> (type
  \<open>bed_mesh_t\<close>, an array \<open>float[GRID_MAX_POINTS_X][GRID_MAX_POINTS_Y]\<close>) and
  \<open>storage_slot\<close>. A function that touches the mesh takes the state and returns its
  result, the list of the index pairs of \<open>z_values\<close> it has read, in order, and the
  state it leaves. Reading outside the array is undefined in C++; here it is the
  fault \<open>OutOfBounds\<close>, which ends the computation. The serial output of the
  \<open>DEBUGGING\<close> branches is not part of the state and is left out.
\<close>

record ubl =
  z_values :: "nat \<Rightarrow> nat \<Rightarrow> cfloat"
  storage_slot :: int8_t

datatype fault = OutOfBounds

type_synonym 'a ubl_op = "ubl \<Rightarrow> (fault + 'a) \<times> (int \<times> int) list \<times> ubl"

definition return_op :: "'a \<Rightarrow> 'a ubl_op" where
  "return_op v s = (Inr v, [], s)"

definition bind_op :: "'a ubl_op \<Rightarrow> ('a \<Rightarrow> 'b ubl_op) \<Rightarrow> 'b ubl_op" where
  "bind_op m f s =
     (case m s of
        (Inl e, r, s') \<Rightarrow> (Inl e, r, s')
      | (Inr v, r, s') \<Rightarrow> (case f v s' of (res, r', s'') \<Rightarrow> (res, r @ r', s'')))"

definition in_mesh :: "config \<Rightarrow> int \<Rightarrow> int \<Rightarrow> bool" where
  "in_mesh cfg i j =
     (0 \<le> i \<and> i < GRID_MAX_POINTS_X cfg \<and> 0 \<le> j \<and> j < GRID_MAX_POINTS_Y cfg)"

definition read_z :: "config \<Rightarrow> int \<Rightarrow> int \<Rightarrow> cfloat ubl_op" where
  "read_z cfg i j s =
     (if in_mesh cfg i j then Inr (z_values s (nat i) (nat j)) else Inl OutOfBounds,
      [(i, j)], s)"

text \<open>\<^verbatim>\<open>set_z(px, py, z) { z_values[px][py] = z; }\<close>: the one writer in the header.\<close>

definition set_z :: "config \<Rightarrow> int8_t \<Rightarrow> int8_t \<Rightarrow> cfloat \<Rightarrow> unit ubl_op" where
  "set_z cfg px py z s =
     (if in_mesh cfg (sint px) (sint py)
      then (Inr (), [],
            s\<lparr>z_values := (z_values s)
                 (nat (sint px) := (z_values s (nat (sint px))) (nat (sint py) := z))\<rparr>)
      else (Inl OutOfBounds, [], s))"

subsection \<open>Z correction\<close>

text \<open>The value returned for a location off the mesh: the raise value, or NaN.\<close>

definition off_mesh_value :: "config \<Rightarrow> cfloat" where
  "off_mesh_value cfg =
     (case UBL_Z_RAISE_WHEN_OFF_MESH cfg of Some r \<Rightarrow> Fin r | None \<Rightarrow> NaN)"

definition z_correction_for_x_on_horizontal_mesh_line ::
    "config \<Rightarrow> cfloat \<Rightarrow> int \<Rightarrow> int \<Rightarrow> cfloat ubl_op" where
  "z_correction_for_x_on_horizontal_mesh_line cfg rx0 x1_i yi =
     (if \<not> WITHIN x1_i 0 (GRID_MAX_POINTS_X cfg - 1) \<or> \<not> WITHIN yi 0 (GRID_MAX_POINTS_Y cfg - 1)
      then return_op (off_mesh_value cfg)
      else
        (let xratio = fmul (fsub rx0 (mesh_index_to_xpos cfg (word_of_int x1_i)))
                           (RECIPROCAL (MESH_X_DIST cfg))
         in bind_op (read_z cfg x1_i yi) (\<lambda>z1.
            bind_op (read_z cfg (min x1_i (GRID_MAX_POINTS_X cfg - 2) + 1) yi) (\<lambda>z2.
            return_op (fadd z1 (fmul xratio (fsub z2 z1)))))))"

definition z_correction_for_y_on_vertical_mesh_line ::
    "config \<Rightarrow> cfloat \<Rightarrow> int \<Rightarrow> int \<Rightarrow> cfloat ubl_op" where
  "z_correction_for_y_on_vertical_mesh_line cfg ry0 xi y1_i =
     (if \<not> WITHIN xi 0 (GRID_MAX_POINTS_X cfg - 1) \<or> \<not> WITHIN y1_i 0 (GRID_MAX_POINTS_Y cfg - 1)
      then return_op (off_mesh_value cfg)
      else
        (let yratio = fmul (fsub ry0 (mesh_index_to_ypos cfg (word_of_int y1_i)))
                           (RECIPROCAL (MESH_Y_DIST cfg))
         in bind_op (read_z cfg xi y1_i) (\<lambda>z1.
            bind_op (read_z cfg xi (min y1_i (GRID_MAX_POINTS_Y cfg - 2) + 1)) (\<lambda>z2.
            return_op (fadd z1 (fmul yratio (fsub z2 z1)))))))"

text \<open>
  The interpolation of \<open>get_z_correction\<close>, from the first read of \<open>z_values\<close> to
  the replacement of a NaN result by \<open>0.0\<close>. \<open>cx + 1\<close> and \<open>cy + 1\<close> are computed in
  \<open>int\<close> and converted to the \<open>uint8_t\<close> parameter of the position functions.
\<close>

definition interpolate_cell :: "config \<Rightarrow> cfloat \<Rightarrow> cfloat \<Rightarrow> int8_t \<Rightarrow> int8_t \<Rightarrow> cfloat ubl_op" where
  "interpolate_cell cfg rx0 ry0 cx cy =
     (let cx1 = min (sint cx) (GRID_MAX_POINTS_X cfg - 2) + 1;
          cy1 = min (sint cy) (GRID_MAX_POINTS_Y cfg - 2) + 1
      in bind_op (read_z cfg (sint cx) (sint cy)) (\<lambda>z00.
         bind_op (read_z cfg cx1 (sint cy)) (\<lambda>z10.
         bind_op (read_z cfg (sint cx) cy1) (\<lambda>z01.
         bind_op (read_z cfg cx1 cy1) (\<lambda>z11.
           (let z1 = calc_z0 rx0 (mesh_index_to_xpos cfg cx) z00
                       (mesh_index_to_xpos cfg (word_of_int (sint cx + 1))) z10;
                z2 = calc_z0 rx0 (mesh_index_to_xpos cfg cx) z01
                       (mesh_index_to_xpos cfg (word_of_int (sint cx + 1))) z11;
                z0 = calc_z0 ry0 (mesh_index_to_ypos cfg cy) z1
                       (mesh_index_to_ypos cfg (word_of_int (sint cy + 1))) z2
            in return_op (if isnan z0 then Fin 0 else z0)))))))"

definition get_z_correction :: "config \<Rightarrow> cfloat \<Rightarrow> cfloat \<Rightarrow> cfloat ubl_op" where
  "get_z_correction cfg rx0 ry0 =
     (let cx = get_cell_index_x cfg rx0;
          cy = get_cell_index_y cfg ry0
      in case UBL_Z_RAISE_WHEN_OFF_MESH cfg of
           Some raise \<Rightarrow>
             if \<not> WITHIN_float rx0 (Fin (MESH_MIN_X cfg)) (Fin (MESH_MAX_X cfg))
                \<or> \<not> WITHIN_float ry0 (Fin (MESH_MIN_Y cfg)) (Fin (MESH_MAX_Y cfg))
             then return_op (Fin raise)
             else interpolate_cell cfg rx0 ry0 cx cy
         | None \<Rightarrow> interpolate_cell cfg rx0 ry0 cx cy)"

text \<open>
  \<open>mesh_is_valid\<close>: the inner loop over \<open>y\<close> and the outer loop over \<open>x\<close>, each
  leaving with \<open>False\<close> at the first NaN. The counters are \<open>uint8_t\<close> in the source
  and natural numbers here, which is the same as long as \<open>GRID_MAX_POINTS\<close> is at
  most 255.
\<close>

function mesh_is_valid_y :: "config \<Rightarrow> nat \<Rightarrow> nat \<Rightarrow> bool ubl_op" where
  "mesh_is_valid_y cfg x y s =
     (if int y < GRID_MAX_POINTS_Y cfg
      then (case read_z cfg (int x) (int y) s of
              (Inl e, r, s') \<Rightarrow> (Inl e, r, s')
            | (Inr z, r, s') \<Rightarrow>
                if isnan z then (Inr False, r, s')
                else (case mesh_is_valid_y cfg x (Suc y) s' of
                        (res, r', s'') \<Rightarrow> (res, r @ r', s'')))
      else (Inr True, [], s))"
  by pat_completeness auto
termination
  by (relation "measure (\<lambda>(cfg, x, y, s). nat (GRID_MAX_POINTS_Y cfg) - y)") auto

function mesh_is_valid_x :: "config \<Rightarrow> nat \<Rightarrow> bool ubl_op" where
  "mesh_is_valid_x cfg x s =
     (if int x < GRID_MAX_POINTS_X cfg
      then (case mesh_is_valid_y cfg x 0 s of
              (Inl e, r, s') \<Rightarrow> (Inl e, r, s')
            | (Inr ok, r, s') \<Rightarrow>
                if \<not> ok then (Inr False, r, s')
                else (case mesh_is_valid_x cfg (Suc x) s' of
                        (res, r', s'') \<Rightarrow> (res, r @ r', s'')))
      else (Inr True, [], s))"
  by pat_completeness auto
termination
  by (relation "measure (\<lambda>(cfg, x, s). nat (GRID_MAX_POINTS_X cfg) - x)") auto

definition mesh_is_valid :: "config \<Rightarrow> bool ubl_op" where
  "mesh_is_valid cfg = mesh_is_valid_x cfg 0"

declare mesh_is_valid_y.simps [simp del] mesh_is_valid_x.simps [simp del]

text \<open>The three parts of what a function on the mesh returns.\<close>

definition result_of :: "(fault + 'a) \<times> (int \<times> int) list \<times> ubl \<Rightarrow> fault + 'a" where
  "result_of out = fst out"

definition reads_of :: "(fault + 'a) \<times> (int \<times> int) list \<times> ubl \<Rightarrow> (int \<times> int) list" where
  "reads_of out = fst (snd out)"

definition state_of :: "(fault + 'a) \<times> (int \<times> int) list \<times> ubl \<Rightarrow> ubl" where
  "state_of out = snd (snd out)"

subsection \<open>Well-formed configurations\<close>

text \<open>
  A grid has at least two lines on each axis and a mesh of positive extent. The cell
  indices are \<open>int8_t\<close>, so \<open>GRID_MAX_POINTS - 1\<close> has to fit that type.
\<close>

definition valid_config :: "config \<Rightarrow> bool" where
  "valid_config cfg =
     (2 \<le> GRID_MAX_POINTS_X cfg \<and> GRID_MAX_POINTS_X cfg \<le> 128 \<and>
      2 \<le> GRID_MAX_POINTS_Y cfg \<and> GRID_MAX_POINTS_Y cfg \<le> 128 \<and>
      MESH_MIN_X cfg < MESH_MAX_X cfg \<and> MESH_MIN_Y cfg < MESH_MAX_Y cfg)"


text \<open>
  The grid of the spec's scenario: 3 by 3 lines over \<open>[0, 200]\<close> on both axes, with
  or without an off-mesh raise value.
\<close>

definition grid3 :: "real option \<Rightarrow> config" where
  "grid3 raise =
     \<lparr>GRID_MAX_POINTS_X = 3, GRID_MAX_POINTS_Y = 3,
      MESH_MIN_X = 0, MESH_MAX_X = 200, MESH_MIN_Y = 0, MESH_MAX_Y = 200,
      UBL_Z_RAISE_WHEN_OFF_MESH = raise,
      mesh_index_to_xpos_table = (\<lambda>i. Fin (of_nat i * 100)),
      mesh_index_to_ypos_table = (\<lambda>j. Fin (of_nat j * 100)),
      float_to_int8_undefined = (\<lambda>_. 0)\<rparr>"

text \<open>
  The mesh of the spec's scenario on that grid: the four corners of the cell at index
  \<open>(0, 0)\<close> are set to 1, 2, 3 and 4, every other point is still undefined (NaN).
\<close>

definition scenario_mesh :: ubl where
  "scenario_mesh =
     \<lparr>z_values = (\<lambda>x y. if x = 0 \<and> y = 0 then Fin 1 else if x = 1 \<and> y = 0 then Fin 2
                         else if x = 0 \<and> y = 1 then Fin 3 else if x = 1 \<and> y = 1 then Fin 4
                         else NaN),
      storage_slot = - 1\<rparr>"

text \<open>The mesh with every point undefined.\<close>

definition all_nan_mesh :: ubl where
  "all_nan_mesh = \<lparr>z_values = (\<lambda>x y. NaN), storage_slot = - 1\<rparr>"

text \<open>
  The cell width of the spec, \<open>MESH_DIST = (MESH_MAX - MESH_MIN) / (GRID_MAX_POINTS - 1)\<close>,
  as a real number.
\<close>

definition dist_x :: "config \<Rightarrow> real" where
  "dist_x cfg = (MESH_MAX_X cfg - MESH_MIN_X cfg) / of_int (GRID_MAX_POINTS_X cfg - 1)"

definition dist_y :: "config \<Rightarrow> real" where
  "dist_y cfg = (MESH_MAX_Y cfg - MESH_MIN_Y cfg) / of_int (GRID_MAX_POINTS_Y cfg - 1)"




section \<open>Rounding to binary32\<close>

lemma pow2_powi: "pow2 e = 2 powi e"
  by (simp add: pow2_def power_int_def power_one_over inverse_eq_divide)

lemma pow2_pos [simp]: "0 < pow2 e"
  by (simp add: pow2_powi)

lemma pow2_nonneg [simp]: "0 \<le> pow2 e"
  using pow2_pos [of e] by (simp only: less_imp_le)




lemma pow2_nat: "0 \<le> e \<Longrightarrow> pow2 e = 2 ^ nat e"
  by (simp add: pow2_def)




lemmas binary32_eval =
  binary32_round_def float_exponent_def compute_bitlen round_half_even_def pow2_def Let_def
  signed_inf_def

lemma binary32_round_zero [simp]: "binary32_round 0 = Fin 0"
  by (simp add: binary32_round_def)


section \<open>Basic facts\<close>

lemma sint_word_of_int_8: "- 128 \<le> k \<Longrightarrow> k \<le> 127 \<Longrightarrow> sint (word_of_int k :: 8 word) = k"
  by (simp add: signed_of_int signed_take_bit_int_eq_self)

lemma float_to_int8_Fin:
  "- 128 \<le> trunc a \<Longrightarrow> trunc a \<le> 127 \<Longrightarrow> sint (float_to_int8 cfg (Fin a)) = trunc a"
  by (simp add: float_to_int8_def sint_word_of_int_8)

lemma trunc_fits: "- 129 < a \<Longrightarrow> a < 128 \<Longrightarrow> - 128 \<le> trunc a \<and> trunc a \<le> 127"
  unfolding trunc_def by (auto; linarith)

lemma trunc_clamp: "0 \<le> h \<Longrightarrow> constrain (trunc a) 0 h = max 0 (min h \<lfloor>a\<rfloor>)"
  unfolding constrain_def trunc_def
  by (auto simp: max_def min_def) linarith+

lemma cell_index_range:
  assumes "1 \<le> n" "n \<le> 128"
  shows "sint (word_of_int (constrain c 0 (n - 1)) :: 8 word) = constrain c 0 (n - 1)"
    and "0 \<le> constrain c 0 (n - 1)" and "constrain c 0 (n - 1) \<le> n - 1"
  using assms by (auto simp: constrain_def sint_word_of_int_8)

lemma grid_bounds:
  assumes "valid_config cfg"
  shows "1 \<le> GRID_MAX_POINTS_X cfg" "GRID_MAX_POINTS_X cfg \<le> 128"
    "1 \<le> GRID_MAX_POINTS_Y cfg" "GRID_MAX_POINTS_Y cfg \<le> 128"
  using assms by (simp_all add: valid_config_def)

lemma dist_x_pos: "valid_config cfg \<Longrightarrow> 0 < dist_x cfg"
  by (simp add: valid_config_def dist_x_def)

lemma dist_y_pos: "valid_config cfg \<Longrightarrow> 0 < dist_y cfg"
  by (simp add: valid_config_def dist_y_def)

lemma grid3_valid: "valid_config (grid3 r)"
  by (simp add: valid_config_def grid3_def)


lemma grid3_fields:
  "GRID_MAX_POINTS_X (grid3 r) = 3" "GRID_MAX_POINTS_Y (grid3 r) = 3"
  "MESH_MIN_X (grid3 r) = 0" "MESH_MAX_X (grid3 r) = 200"
  "MESH_MIN_Y (grid3 r) = 0" "MESH_MAX_Y (grid3 r) = 200"
  "UBL_Z_RAISE_WHEN_OFF_MESH (grid3 r) = r"
  by (simp_all add: grid3_def)

lemma grid3_MESH_DIST: "MESH_X_DIST (grid3 r) = Fin 100" "MESH_Y_DIST (grid3 r) = Fin 100"
  by (simp_all add: MESH_X_DIST_def MESH_Y_DIST_def grid3_def binary32_eval)

lemma RECIPROCAL_100: "RECIPROCAL (Fin 100) = Fin (5368709 / 536870912)"
  by (simp add: RECIPROCAL_def binary32_eval)

section \<open>Cell index lookup\<close>

lemma get_cell_index_x_range:
  assumes "valid_config cfg"
  shows "0 \<le> sint (get_cell_index_x cfg x)"
    and "sint (get_cell_index_x cfg x) \<le> GRID_MAX_POINTS_X cfg - 1"
  unfolding get_cell_index_x_def Let_def
  using cell_index_range [OF grid_bounds(1,2) [OF assms]] by simp_all

lemma get_cell_index_y_range:
  assumes "valid_config cfg"
  shows "0 \<le> sint (get_cell_index_y cfg y)"
    and "sint (get_cell_index_y cfg y) \<le> GRID_MAX_POINTS_Y cfg - 1"
  unfolding get_cell_index_y_def Let_def
  using cell_index_range [OF grid_bounds(3,4) [OF assms]] by simp_all

lemma get_cell_index_x_of_product:
  assumes "valid_config cfg"
    and "fmul (fsub x (Fin (MESH_MIN_X cfg))) (RECIPROCAL (MESH_X_DIST cfg)) = Fin c"
    and "- 129 < c" and "c < 128"
  shows "sint (get_cell_index_x cfg x) = max 0 (min (GRID_MAX_POINTS_X cfg - 1) \<lfloor>c\<rfloor>)"
proof -
  note n = grid_bounds(1,2) [OF assms(1)]
  have t: "sint (float_to_int8 cfg (Fin c)) = trunc c"
    using trunc_fits [OF assms(3,4)] by (simp add: float_to_int8_Fin)
  have "sint (get_cell_index_x cfg x) = constrain (trunc c) 0 (GRID_MAX_POINTS_X cfg - 1)"
    unfolding get_cell_index_x_def Let_def assms(2) t
    by (rule cell_index_range(1) [OF n])
  then show ?thesis
    using n by (simp add: trunc_clamp)
qed

lemma get_cell_index_y_of_product:
  assumes "valid_config cfg"
    and "fmul (fsub y (Fin (MESH_MIN_Y cfg))) (RECIPROCAL (MESH_Y_DIST cfg)) = Fin c"
    and "- 129 < c" and "c < 128"
  shows "sint (get_cell_index_y cfg y) = max 0 (min (GRID_MAX_POINTS_Y cfg - 1) \<lfloor>c\<rfloor>)"
proof -
  note n = grid_bounds(3,4) [OF assms(1)]
  have t: "sint (float_to_int8 cfg (Fin c)) = trunc c"
    using trunc_fits [OF assms(3,4)] by (simp add: float_to_int8_Fin)
  have "sint (get_cell_index_y cfg y) = constrain (trunc c) 0 (GRID_MAX_POINTS_Y cfg - 1)"
    unfolding get_cell_index_y_def Let_def assms(2) t
    by (rule cell_index_range(1) [OF n])
  then show ?thesis
    using n by (simp add: trunc_clamp)
qed

text \<open>The scaled offsets of some positions on the 3 by 3 grid over \<open>[0, 200]\<close>.\<close>

lemma grid3_product_x:
  "fmul (fsub (Fin p) (Fin (MESH_MIN_X (grid3 r)))) (RECIPROCAL (MESH_X_DIST (grid3 r)))
     = fmul (binary32_round p) (Fin (5368709 / 536870912))"
  by (simp add: grid3_MESH_DIST RECIPROCAL_100 grid3_fields fsub_def)

lemma grid3_product_y:
  "fmul (fsub (Fin p) (Fin (MESH_MIN_Y (grid3 r)))) (RECIPROCAL (MESH_Y_DIST (grid3 r)))
     = fmul (binary32_round p) (Fin (5368709 / 536870912))"
  by (simp add: grid3_MESH_DIST RECIPROCAL_100 grid3_fields fsub_def)

lemma grid3_products:
  "fmul (binary32_round 50) (Fin (5368709 / 536870912)) = Fin (1 / 2)"
  "fmul (binary32_round 150) (Fin (5368709 / 536870912)) = Fin (3 / 2)"
  "fmul (binary32_round 250) (Fin (5368709 / 536870912)) = Fin (5 / 2)"
  "fmul (binary32_round 100) (Fin (5368709 / 536870912)) = Fin 1"
  "fmul (binary32_round 200) (Fin (5368709 / 536870912)) = Fin 2"
  "fmul (binary32_round (- 30)) (Fin (5368709 / 536870912)) = Fin (- (10066329 / 33554432))"
  by (simp_all add: binary32_eval)

lemma grid3_cell_x_eval:
  assumes "fmul (binary32_round p) (Fin (5368709 / 536870912)) = Fin c" "- 129 < c" "c < 128"
  shows "sint (get_cell_index_x (grid3 r) (Fin p)) = max 0 (min 2 \<lfloor>c\<rfloor>)"
proof -
  have "fmul (fsub (Fin p) (Fin (MESH_MIN_X (grid3 r)))) (RECIPROCAL (MESH_X_DIST (grid3 r))) = Fin c"
    using assms(1) by (simp only: grid3_product_x)
  from get_cell_index_x_of_product [OF grid3_valid this assms(2,3)]
  show ?thesis by (simp add: grid3_fields)
qed

lemma grid3_cell_y_eval:
  assumes "fmul (binary32_round p) (Fin (5368709 / 536870912)) = Fin c" "- 129 < c" "c < 128"
  shows "sint (get_cell_index_y (grid3 r) (Fin p)) = max 0 (min 2 \<lfloor>c\<rfloor>)"
proof -
  have "fmul (fsub (Fin p) (Fin (MESH_MIN_Y (grid3 r)))) (RECIPROCAL (MESH_Y_DIST (grid3 r))) = Fin c"
    using assms(1) by (simp only: grid3_product_y)
  from get_cell_index_y_of_product [OF grid3_valid this assms(2,3)]
  show ?thesis by (simp add: grid3_fields)
qed

lemma grid3_cell_x:
  "sint (get_cell_index_x (grid3 r) (Fin 50)) = 0"
  "sint (get_cell_index_x (grid3 r) (Fin 150)) = 1"
  "sint (get_cell_index_x (grid3 r) (Fin 250)) = 2"
  "sint (get_cell_index_x (grid3 r) (Fin 100)) = 1"
  "sint (get_cell_index_x (grid3 r) (Fin 200)) = 2"
  using grid3_cell_x_eval [OF grid3_products(1), of r] grid3_cell_x_eval [OF grid3_products(2), of r]
    grid3_cell_x_eval [OF grid3_products(3), of r] grid3_cell_x_eval [OF grid3_products(4), of r]
    grid3_cell_x_eval [OF grid3_products(5), of r]
  by simp_all

lemma grid3_cell_y:
  "sint (get_cell_index_y (grid3 r) (Fin 50)) = 0"
  "sint (get_cell_index_y (grid3 r) (Fin 100)) = 1"
  "sint (get_cell_index_y (grid3 r) (Fin (- 30))) = 0"
  using grid3_cell_y_eval [OF grid3_products(1), of r] grid3_cell_y_eval [OF grid3_products(4), of r]
    grid3_cell_y_eval [OF grid3_products(6), of r]
  by simp_all

section \<open>Reading the mesh\<close>

lemma read_z_ok:
  "in_mesh cfg i j \<Longrightarrow> read_z cfg i j s = (Inr (z_values s (nat i) (nat j)), [(i, j)], s)"
  by (simp add: read_z_def)

lemma bind_read_z:
  "in_mesh cfg i j \<Longrightarrow>
   bind_op (read_z cfg i j) f s
     = (case f (z_values s (nat i) (nat j)) s of (res, r', s'') \<Rightarrow> (res, (i, j) # r', s''))"
  by (simp add: bind_op_def read_z_def)

lemma mesh_is_valid_y_done:
  "\<not> int y < GRID_MAX_POINTS_Y cfg \<Longrightarrow> mesh_is_valid_y cfg x y s = (Inr True, [], s)"
  by (subst mesh_is_valid_y.simps) simp

lemma mesh_is_valid_y_fault:
  "int y < GRID_MAX_POINTS_Y cfg \<Longrightarrow> \<not> in_mesh cfg (int x) (int y) \<Longrightarrow>
   mesh_is_valid_y cfg x y s = (Inl OutOfBounds, [(int x, int y)], s)"
  by (subst mesh_is_valid_y.simps) (simp add: read_z_def)

lemma mesh_is_valid_y_nan:
  "int y < GRID_MAX_POINTS_Y cfg \<Longrightarrow> in_mesh cfg (int x) (int y) \<Longrightarrow> isnan (z_values s x y) \<Longrightarrow>
   mesh_is_valid_y cfg x y s = (Inr False, [(int x, int y)], s)"
  by (subst mesh_is_valid_y.simps) (simp add: read_z_def)

lemma mesh_is_valid_y_step:
  "int y < GRID_MAX_POINTS_Y cfg \<Longrightarrow> in_mesh cfg (int x) (int y) \<Longrightarrow> \<not> isnan (z_values s x y) \<Longrightarrow>
   mesh_is_valid_y cfg x y s =
     (result_of (mesh_is_valid_y cfg x (Suc y) s),
      (int x, int y) # reads_of (mesh_is_valid_y cfg x (Suc y) s),
      state_of (mesh_is_valid_y cfg x (Suc y) s))"
  by (subst mesh_is_valid_y.simps)
     (simp add: read_z_def case_prod_beta result_of_def reads_of_def state_of_def)

lemma mesh_is_valid_y_cases:
  obtains (finished) "\<not> int y < GRID_MAX_POINTS_Y cfg"
  | (fault) "int y < GRID_MAX_POINTS_Y cfg" "\<not> in_mesh cfg (int x) (int y)"
  | (nan) "int y < GRID_MAX_POINTS_Y cfg" "in_mesh cfg (int x) (int y)" "isnan (z_values s x y)"
  | (step) "int y < GRID_MAX_POINTS_Y cfg" "in_mesh cfg (int x) (int y)" "\<not> isnan (z_values s x y)"
  by blast

lemma mesh_is_valid_y_state: "state_of (mesh_is_valid_y cfg x y s) = s"
proof (induction "nat (GRID_MAX_POINTS_Y cfg) - y" arbitrary: y)
  case 0
  then have "\<not> int y < GRID_MAX_POINTS_Y cfg" by linarith
  then show ?case by (simp add: mesh_is_valid_y_done state_of_def)
next
  case (Suc n)
  then have ih: "state_of (mesh_is_valid_y cfg x (Suc y) s) = s" by simp
  show ?case
  proof (cases rule: mesh_is_valid_y_cases [where y=y and cfg=cfg and x=x and s=s])
    case finished
    then show ?thesis by (simp add: mesh_is_valid_y_done state_of_def)
  next
    case fault
    then show ?thesis by (simp add: mesh_is_valid_y_fault state_of_def)
  next
    case nan
    then show ?thesis by (simp add: mesh_is_valid_y_nan state_of_def)
  next
    case step
    then show ?thesis using ih
      by (simp add: mesh_is_valid_y_step state_of_def)
  qed
qed

lemma mesh_is_valid_y_det:
  assumes "z_values s = z_values t"
  shows "result_of (mesh_is_valid_y cfg x y s) = result_of (mesh_is_valid_y cfg x y t)
   \<and> reads_of (mesh_is_valid_y cfg x y s) = reads_of (mesh_is_valid_y cfg x y t)"
proof (induction "nat (GRID_MAX_POINTS_Y cfg) - y" arbitrary: y)
  case 0
  then have "\<not> int y < GRID_MAX_POINTS_Y cfg" by linarith
  then show ?case by (simp add: mesh_is_valid_y_done result_of_def reads_of_def)
next
  case (Suc n)
  then have ih: "result_of (mesh_is_valid_y cfg x (Suc y) s) = result_of (mesh_is_valid_y cfg x (Suc y) t)
      \<and> reads_of (mesh_is_valid_y cfg x (Suc y) s) = reads_of (mesh_is_valid_y cfg x (Suc y) t)"
    by simp
  show ?case
  proof (cases rule: mesh_is_valid_y_cases [where y=y and cfg=cfg and x=x and s=s])
    case finished
    then show ?thesis by (simp add: mesh_is_valid_y_done result_of_def reads_of_def)
  next
    case fault
    then show ?thesis by (simp add: mesh_is_valid_y_fault result_of_def reads_of_def)
  next
    case nan
    then show ?thesis using assms by (simp add: mesh_is_valid_y_nan result_of_def reads_of_def)
  next
    case step
    then have "\<not> isnan (z_values t x y)" using assms by simp
    then show ?thesis using step ih
      by (simp add: mesh_is_valid_y_step result_of_def reads_of_def)
  qed
qed

lemma mesh_is_valid_y_result:
  assumes "0 \<le> x" "int x < GRID_MAX_POINTS_X cfg"
  shows "result_of (mesh_is_valid_y cfg x y s)
     = Inr (\<forall>j. y \<le> j \<and> int j < GRID_MAX_POINTS_Y cfg \<longrightarrow> \<not> isnan (z_values s x j))"
proof (induction "nat (GRID_MAX_POINTS_Y cfg) - y" arbitrary: y)
  case 0
  then have "\<not> int y < GRID_MAX_POINTS_Y cfg" by linarith
  then show ?case by (auto simp add: mesh_is_valid_y_done result_of_def)
next
  case (Suc n)
  then have ih: "result_of (mesh_is_valid_y cfg x (Suc y) s)
     = Inr (\<forall>j. Suc y \<le> j \<and> int j < GRID_MAX_POINTS_Y cfg \<longrightarrow> \<not> isnan (z_values s x j))"
    by simp
  from Suc have lt: "int y < GRID_MAX_POINTS_Y cfg" by linarith
  then have m: "in_mesh cfg (int x) (int y)" using assms by (simp add: in_mesh_def)
  show ?case
  proof (cases "isnan (z_values s x y)")
    case True
    then show ?thesis using lt m by (auto simp add: mesh_is_valid_y_nan result_of_def)
  next
    case False
    have "(\<forall>j. y \<le> j \<and> int j < GRID_MAX_POINTS_Y cfg \<longrightarrow> \<not> isnan (z_values s x j))
        = (\<forall>j. Suc y \<le> j \<and> int j < GRID_MAX_POINTS_Y cfg \<longrightarrow> \<not> isnan (z_values s x j))"
    proof (intro iffI allI impI)
      fix j
      assume a: "\<forall>j. y \<le> j \<and> int j < GRID_MAX_POINTS_Y cfg \<longrightarrow> \<not> isnan (z_values s x j)"
        and "Suc y \<le> j \<and> int j < GRID_MAX_POINTS_Y cfg"
      then show "\<not> isnan (z_values s x j)" by (simp add: Suc_leD)
    next
      fix j
      assume a: "\<forall>j. Suc y \<le> j \<and> int j < GRID_MAX_POINTS_Y cfg \<longrightarrow> \<not> isnan (z_values s x j)"
        and b: "y \<le> j \<and> int j < GRID_MAX_POINTS_Y cfg"
      show "\<not> isnan (z_values s x j)"
      proof (cases "j = y")
        case True
        then show ?thesis using False by simp
      next
        case False
        then have "Suc y \<le> j" using b by simp
        then show ?thesis using a b by simp
      qed
    qed
    then show ?thesis using lt m False ih
      by (simp add: mesh_is_valid_y_step result_of_def)
  qed
qed


lemma mesh_is_valid_x_done:
  "\<not> int x < GRID_MAX_POINTS_X cfg \<Longrightarrow> mesh_is_valid_x cfg x s = (Inr True, [], s)"
  by (subst mesh_is_valid_x.simps) simp

lemma mesh_is_valid_x_row:
  assumes "int x < GRID_MAX_POINTS_X cfg"
  shows "mesh_is_valid_x cfg x s =
    (case result_of (mesh_is_valid_y cfg x 0 s) of
       Inl e \<Rightarrow> (Inl e, reads_of (mesh_is_valid_y cfg x 0 s), s)
     | Inr ok \<Rightarrow>
         if \<not> ok then (Inr False, reads_of (mesh_is_valid_y cfg x 0 s), s)
         else (result_of (mesh_is_valid_x cfg (Suc x) s),
               reads_of (mesh_is_valid_y cfg x 0 s) @ reads_of (mesh_is_valid_x cfg (Suc x) s),
               state_of (mesh_is_valid_x cfg (Suc x) s)))"
proof -
  obtain res r where row: "mesh_is_valid_y cfg x 0 s = (res, r, s)"
    using mesh_is_valid_y_state [of cfg x 0 s]
    by (cases "mesh_is_valid_y cfg x 0 s") (simp add: state_of_def)
  show ?thesis
    using assms
    by (subst mesh_is_valid_x.simps)
       (simp add: row case_prod_beta result_of_def reads_of_def state_of_def split: sum.splits)
qed

lemma mesh_is_valid_x_state: "state_of (mesh_is_valid_x cfg x s) = s"
proof (induction "nat (GRID_MAX_POINTS_X cfg) - x" arbitrary: x)
  case 0
  then have "\<not> int x < GRID_MAX_POINTS_X cfg" by linarith
  then show ?case by (simp add: mesh_is_valid_x_done state_of_def)
next
  case (Suc n)
  then have ih: "state_of (mesh_is_valid_x cfg (Suc x) s) = s" by simp
  from Suc have lt: "int x < GRID_MAX_POINTS_X cfg" by linarith
  show ?case
    unfolding mesh_is_valid_x_row [OF lt]
    using ih by (simp add: state_of_def split: sum.splits)
qed

lemma mesh_is_valid_x_det:
  assumes "z_values s = z_values t"
  shows "result_of (mesh_is_valid_x cfg x s) = result_of (mesh_is_valid_x cfg x t)
   \<and> reads_of (mesh_is_valid_x cfg x s) = reads_of (mesh_is_valid_x cfg x t)"
proof (induction "nat (GRID_MAX_POINTS_X cfg) - x" arbitrary: x)
  case 0
  then have "\<not> int x < GRID_MAX_POINTS_X cfg" by linarith
  then show ?case by (simp add: mesh_is_valid_x_done result_of_def reads_of_def)
next
  case (Suc n)
  then have ih: "result_of (mesh_is_valid_x cfg (Suc x) s) = result_of (mesh_is_valid_x cfg (Suc x) t)
      \<and> reads_of (mesh_is_valid_x cfg (Suc x) s) = reads_of (mesh_is_valid_x cfg (Suc x) t)"
    by simp
  from Suc have lt: "int x < GRID_MAX_POINTS_X cfg" by linarith
  note row = mesh_is_valid_y_det [OF assms, of cfg x 0]
  show ?case
    unfolding mesh_is_valid_x_row [OF lt]
    using ih row by (simp add: result_of_def reads_of_def split: sum.splits)
qed

lemma mesh_is_valid_x_result:
  "result_of (mesh_is_valid_x cfg x s)
     = Inr (\<forall>i j. x \<le> i \<and> int i < GRID_MAX_POINTS_X cfg \<and> int j < GRID_MAX_POINTS_Y cfg
              \<longrightarrow> \<not> isnan (z_values s i j))"
proof (induction "nat (GRID_MAX_POINTS_X cfg) - x" arbitrary: x)
  case 0
  then have "\<not> int x < GRID_MAX_POINTS_X cfg" by linarith
  then show ?case by (auto simp add: mesh_is_valid_x_done result_of_def)
next
  case (Suc n)
  then have ih: "result_of (mesh_is_valid_x cfg (Suc x) s)
     = Inr (\<forall>i j. Suc x \<le> i \<and> int i < GRID_MAX_POINTS_X cfg \<and> int j < GRID_MAX_POINTS_Y cfg
              \<longrightarrow> \<not> isnan (z_values s i j))"
    by simp
  from Suc have lt: "int x < GRID_MAX_POINTS_X cfg" by linarith
  have row: "result_of (mesh_is_valid_y cfg x 0 s)
     = Inr (\<forall>j. int j < GRID_MAX_POINTS_Y cfg \<longrightarrow> \<not> isnan (z_values s x j))"
    using mesh_is_valid_y_result [OF _ lt, of 0 s] by simp
  have split: "(\<forall>i j. x \<le> i \<and> int i < GRID_MAX_POINTS_X cfg \<and> int j < GRID_MAX_POINTS_Y cfg
              \<longrightarrow> \<not> isnan (z_values s i j))
      = ((\<forall>j. int j < GRID_MAX_POINTS_Y cfg \<longrightarrow> \<not> isnan (z_values s x j))
         \<and> (\<forall>i j. Suc x \<le> i \<and> int i < GRID_MAX_POINTS_X cfg \<and> int j < GRID_MAX_POINTS_Y cfg
              \<longrightarrow> \<not> isnan (z_values s i j)))"
    (is "?L = (?R1 \<and> ?R2)")
  proof
    assume l: ?L
    show "?R1 \<and> ?R2" using l lt by (simp add: Suc_leD)
  next
    assume r: "?R1 \<and> ?R2"
    show ?L
    proof (intro allI impI)
      fix i j
      assume a: "x \<le> i \<and> int i < GRID_MAX_POINTS_X cfg \<and> int j < GRID_MAX_POINTS_Y cfg"
      show "\<not> isnan (z_values s i j)"
      proof (cases "i = x")
        case True
        then show ?thesis using r a by simp
      next
        case False
        then have "Suc x \<le> i" using a by simp
        then show ?thesis using r a by simp
      qed
    qed
  qed
  show ?case
    unfolding mesh_is_valid_x_row [OF lt] split
    using ih row by (simp add: result_of_def split: sum.splits)
qed

section \<open>Z correction: NaN and off-mesh queries\<close>

lemma fadd_NaN [simp]: "fadd x NaN = NaN"
  by (cases x) simp_all

lemma fmul_NaN [simp]: "fmul x NaN = NaN"
  by (cases x) simp_all

lemma fdiv_NaN [simp]: "fdiv x NaN = NaN"
  by (cases x) simp_all

lemma fsub_NaN [simp]: "fsub x NaN = NaN" "fsub NaN y = NaN"
  by (simp_all add: fsub_def)

lemma calc_z0_NaN [simp]: "calc_z0 a0 a1 NaN a2 z2 = NaN" "calc_z0 a0 a1 z1 a2 NaN = NaN"
  by (simp_all add: calc_z0_def)

lemma isnan_iff: "isnan z \<longleftrightarrow> z = NaN"
  by (cases z) simp_all

lemma interpolate_cell_eq:
  assumes "in_mesh cfg (sint cx) (sint cy)"
    and "1 \<le> GRID_MAX_POINTS_X cfg" and "1 \<le> GRID_MAX_POINTS_Y cfg"
    and "cx1 = min (sint cx) (GRID_MAX_POINTS_X cfg - 2) + 1"
    and "cy1 = min (sint cy) (GRID_MAX_POINTS_Y cfg - 2) + 1"
  shows "in_mesh cfg cx1 (sint cy) \<and> in_mesh cfg (sint cx) cy1 \<and> in_mesh cfg cx1 cy1"
    and "interpolate_cell cfg rx ry cx cy s =
    (let z00 = z_values s (nat (sint cx)) (nat (sint cy));
         z10 = z_values s (nat cx1) (nat (sint cy));
         z01 = z_values s (nat (sint cx)) (nat cy1);
         z11 = z_values s (nat cx1) (nat cy1);
         z1 = calc_z0 rx (mesh_index_to_xpos cfg cx) z00
                       (mesh_index_to_xpos cfg (word_of_int (sint cx + 1))) z10;
         z2 = calc_z0 rx (mesh_index_to_xpos cfg cx) z01
                       (mesh_index_to_xpos cfg (word_of_int (sint cx + 1))) z11;
         z0 = calc_z0 ry (mesh_index_to_ypos cfg cy) z1
                       (mesh_index_to_ypos cfg (word_of_int (sint cy + 1))) z2
     in (Inr (if isnan z0 then Fin 0 else z0),
         [(sint cx, sint cy), (cx1, sint cy), (sint cx, cy1), (cx1, cy1)], s))"
proof -
  show a: "in_mesh cfg cx1 (sint cy) \<and> in_mesh cfg (sint cx) cy1 \<and> in_mesh cfg cx1 cy1"
    using assms by (auto simp: in_mesh_def)
  show "interpolate_cell cfg rx ry cx cy s = (let z00 = z_values s (nat (sint cx)) (nat (sint cy));
         z10 = z_values s (nat cx1) (nat (sint cy));
         z01 = z_values s (nat (sint cx)) (nat cy1);
         z11 = z_values s (nat cx1) (nat cy1);
         z1 = calc_z0 rx (mesh_index_to_xpos cfg cx) z00
                       (mesh_index_to_xpos cfg (word_of_int (sint cx + 1))) z10;
         z2 = calc_z0 rx (mesh_index_to_xpos cfg cx) z01
                       (mesh_index_to_xpos cfg (word_of_int (sint cx + 1))) z11;
         z0 = calc_z0 ry (mesh_index_to_ypos cfg cy) z1
                       (mesh_index_to_ypos cfg (word_of_int (sint cy + 1))) z2
     in (Inr (if isnan z0 then Fin 0 else z0),
         [(sint cx, sint cy), (cx1, sint cy), (sint cx, cy1), (cx1, cy1)], s))"
    unfolding interpolate_cell_def Let_def assms(4,5) [symmetric]
    using a assms(1) by (simp add: bind_read_z return_op_def)
qed

lemma cell_in_mesh:
  assumes "valid_config cfg"
  shows "in_mesh cfg (sint (get_cell_index_x cfg rx0)) (sint (get_cell_index_y cfg ry0))"
  using get_cell_index_x_range [OF assms, of rx0] get_cell_index_y_range [OF assms, of ry0]
  by (simp add: in_mesh_def)

lemma get_z_correction_interpolates:
  assumes "UBL_Z_RAISE_WHEN_OFF_MESH cfg = None
     \<or> (WITHIN_float rx0 (Fin (MESH_MIN_X cfg)) (Fin (MESH_MAX_X cfg))
        \<and> WITHIN_float ry0 (Fin (MESH_MIN_Y cfg)) (Fin (MESH_MAX_Y cfg)))"
  shows "get_z_correction cfg rx0 ry0 s
     = interpolate_cell cfg rx0 ry0 (get_cell_index_x cfg rx0) (get_cell_index_y cfg ry0) s"
  using assms by (auto simp: get_z_correction_def Let_def split: option.splits)

lemma interpolation_nan_is_zero:
  assumes "valid_config cfg"
    and "UBL_Z_RAISE_WHEN_OFF_MESH cfg = None
     \<or> (WITHIN_float rx0 (Fin (MESH_MIN_X cfg)) (Fin (MESH_MAX_X cfg))
        \<and> WITHIN_float ry0 (Fin (MESH_MIN_Y cfg)) (Fin (MESH_MAX_Y cfg)))"
    and "cx = sint (get_cell_index_x cfg rx0)" and "cy = sint (get_cell_index_y cfg ry0)"
    and "cx1 = min cx (GRID_MAX_POINTS_X cfg - 2) + 1"
    and "cy1 = min cy (GRID_MAX_POINTS_Y cfg - 2) + 1"
    and "isnan (z_values s (nat cx) (nat cy)) \<or> isnan (z_values s (nat cx1) (nat cy))
       \<or> isnan (z_values s (nat cx) (nat cy1)) \<or> isnan (z_values s (nat cx1) (nat cy1))"
  shows "get_z_correction cfg rx0 ry0 s
     = (Inr (Fin 0), [(cx, cy), (cx1, cy), (cx, cy1), (cx1, cy1)], s)"
proof -
  note n = grid_bounds [OF assms(1)]
  have c: "cx1 = min (sint (get_cell_index_x cfg rx0)) (GRID_MAX_POINTS_X cfg - 2) + 1"
    "cy1 = min (sint (get_cell_index_y cfg ry0)) (GRID_MAX_POINTS_Y cfg - 2) + 1"
    using assms(3-6) by simp_all
  note eq = interpolate_cell_eq(2) [OF cell_in_mesh [OF assms(1)] n(1) n(3) c,
      where rx=rx0 and ry=ry0 and s=s]
  show ?thesis
    unfolding get_z_correction_interpolates [OF assms(2)] eq Let_def
    using assms(7) by (auto simp: isnan_iff assms(3,4) [symmetric])
qed


lemma scenario_values:
  "z_values scenario_mesh 0 0 = Fin 1" "z_values scenario_mesh (Suc 0) 0 = Fin 2"
  "z_values scenario_mesh 0 (Suc 0) = Fin 3" "z_values scenario_mesh (Suc 0) (Suc 0) = Fin 4"
  "z_values scenario_mesh 2 0 = NaN" "z_values scenario_mesh 2 (Suc 0) = NaN"
  "z_values scenario_mesh 2 2 = NaN" "z_values scenario_mesh (Suc 0) 2 = NaN"
  "z_values scenario_mesh 0 2 = NaN"
  by (simp_all add: scenario_mesh_def)

lemma WITHIN_float_Fin: "WITHIN_float (Fin a) (Fin l) (Fin h) \<longleftrightarrow> l \<le> a \<and> a \<le> h"
  by (auto simp: WITHIN_float_def fge_def fle_def)

text \<open>
  Claim C3. A query reaches the interpolation when no off-mesh raise value is configured
  or the position is within the mesh bounds on both axes. Then, if any of the four mesh
  values read (at the cell index and at its capped successors) is NaN,
  \<open>get_z_correction\<close> returns exactly \<open>0.0\<close>, having read those four values and
  left the state as it was. This holds for every position, finite or not.
\<close>

theorem get_z_correction_nan_is_zero:
  assumes "valid_config cfg"
    and "UBL_Z_RAISE_WHEN_OFF_MESH cfg = None
     \<or> (WITHIN_float rx0 (Fin (MESH_MIN_X cfg)) (Fin (MESH_MAX_X cfg))
        \<and> WITHIN_float ry0 (Fin (MESH_MIN_Y cfg)) (Fin (MESH_MAX_Y cfg)))"
    and "cx = sint (get_cell_index_x cfg rx0)" and "cy = sint (get_cell_index_y cfg ry0)"
    and "cx1 = min cx (GRID_MAX_POINTS_X cfg - 2) + 1"
    and "cy1 = min cy (GRID_MAX_POINTS_Y cfg - 2) + 1"
    and "isnan (z_values s (nat cx) (nat cy)) \<or> isnan (z_values s (nat cx1) (nat cy))
       \<or> isnan (z_values s (nat cx) (nat cy1)) \<or> isnan (z_values s (nat cx1) (nat cy1))"
  shows "get_z_correction cfg rx0 ry0 s
     = (Inr (Fin 0), [(cx, cy), (cx1, cy), (cx, cy1), (cx1, cy1)], s)"
  using assms by (rule interpolation_nan_is_zero)

text \<open>
  On the scenario mesh with a raise value of 5 configured, the query at \<open>(150, 50)\<close>
  is within the mesh, uses the cell at index \<open>(1, 0)\<close>, whose corner \<open>(2, 0)\<close> is NaN,
  and returns 0.
\<close>

theorem get_z_correction_nan_is_zero_witness:
  "valid_config (grid3 (Some 5))
   \<and> WITHIN_float (Fin 150) (Fin (MESH_MIN_X (grid3 (Some 5)))) (Fin (MESH_MAX_X (grid3 (Some 5))))
   \<and> WITHIN_float (Fin 50) (Fin (MESH_MIN_Y (grid3 (Some 5)))) (Fin (MESH_MAX_Y (grid3 (Some 5))))
   \<and> sint (get_cell_index_x (grid3 (Some 5)) (Fin 150)) = 1
   \<and> sint (get_cell_index_y (grid3 (Some 5)) (Fin 50)) = 0
   \<and> isnan (z_values scenario_mesh 2 0)
   \<and> get_z_correction (grid3 (Some 5)) (Fin 150) (Fin 50) scenario_mesh
       = (Inr (Fin 0), [(1, 0), (2, 0), (1, 1), (2, 1)], scenario_mesh)"
proof -
  have cx: "sint (get_cell_index_x (grid3 (Some 5)) (Fin 150)) = 1"
    by (simp add: grid3_cell_x)
  have cy: "sint (get_cell_index_y (grid3 (Some 5)) (Fin 50)) = 0"
    by (simp add: grid3_cell_y)
  show ?thesis
    using get_z_correction_nan_is_zero [where cfg="grid3 (Some 5)" and ?rx0.0="Fin 150"
        and ?ry0.0="Fin 50" and cx=1 and cy=0 and ?cx1.0=2 and ?cy1.0=1 and s=scenario_mesh]
    by (simp add: cx cy WITHIN_float_Fin grid3_valid grid3_fields scenario_values)
qed

text \<open>
  Claim C4. When the X index or the Y index passed to
  \<open>z_correction_for_x_on_horizontal_mesh_line\<close> or
  \<open>z_correction_for_y_on_vertical_mesh_line\<close> lies outside \<open>[0, GRID_MAX_POINTS - 1]\<close>,
  the helper returns the off-mesh raise value when one is configured and NaN otherwise.
  It reads no mesh value (so no clamped index is used) and a NaN is returned as it is.
\<close>

theorem single_axis_helpers_off_mesh:
  assumes "\<not> (0 \<le> x_i \<and> x_i \<le> GRID_MAX_POINTS_X cfg - 1)
         \<or> \<not> (0 \<le> y_i \<and> y_i \<le> GRID_MAX_POINTS_Y cfg - 1)"
  shows "z_correction_for_x_on_horizontal_mesh_line cfg rx0 x_i y_i s
           = (Inr (case UBL_Z_RAISE_WHEN_OFF_MESH cfg of Some r \<Rightarrow> Fin r | None \<Rightarrow> NaN), [], s)
       \<and> z_correction_for_y_on_vertical_mesh_line cfg ry0 x_i y_i s
           = (Inr (case UBL_Z_RAISE_WHEN_OFF_MESH cfg of Some r \<Rightarrow> Fin r | None \<Rightarrow> NaN), [], s)"
  using assms
  by (auto simp: z_correction_for_x_on_horizontal_mesh_line_def
      z_correction_for_y_on_vertical_mesh_line_def WITHIN_def return_op_def off_mesh_value_def)

text \<open>
  With raise value 5 and X index 3 on the 3 by 3 grid both helpers return 5; without a
  raise value and with Y index -1 both return NaN.
\<close>

theorem single_axis_helpers_off_mesh_witness:
  "\<not> (0 \<le> (3::int) \<and> 3 \<le> GRID_MAX_POINTS_X (grid3 (Some 5)) - 1)
   \<and> z_correction_for_x_on_horizontal_mesh_line (grid3 (Some 5)) (Fin 50) 3 0 scenario_mesh
        = (Inr (Fin 5), [], scenario_mesh)
   \<and> z_correction_for_y_on_vertical_mesh_line (grid3 (Some 5)) (Fin 50) 3 0 scenario_mesh
        = (Inr (Fin 5), [], scenario_mesh)
   \<and> \<not> (0 \<le> (- 1::int) \<and> - 1 \<le> GRID_MAX_POINTS_Y (grid3 None) - 1)
   \<and> z_correction_for_x_on_horizontal_mesh_line (grid3 None) (Fin 50) 0 (- 1) scenario_mesh
        = (Inr NaN, [], scenario_mesh)
   \<and> z_correction_for_y_on_vertical_mesh_line (grid3 None) (Fin 50) 0 (- 1) scenario_mesh
        = (Inr NaN, [], scenario_mesh)"
  using single_axis_helpers_off_mesh [where cfg="grid3 (Some 5)" and x_i=3 and y_i=0
      and ?rx0.0="Fin 50" and ?ry0.0="Fin 50" and s=scenario_mesh]
    single_axis_helpers_off_mesh [where cfg="grid3 None" and x_i=0 and y_i="- 1"
      and ?rx0.0="Fin 50" and ?ry0.0="Fin 50" and s=scenario_mesh]
  by (simp add: grid3_fields)

text \<open>
  Claim C6. With an off-mesh raise value configured, \<open>get_z_correction\<close> at a finite
  position strictly outside \<open>[MESH_MIN, MESH_MAX]\<close> on either axis returns the raise
  value, with no fault, an empty list of reads and the state unchanged.
\<close>

theorem get_z_correction_off_mesh_raise:
  assumes "UBL_Z_RAISE_WHEN_OFF_MESH cfg = Some raise"
    and "x < MESH_MIN_X cfg \<or> MESH_MAX_X cfg < x \<or> y < MESH_MIN_Y cfg \<or> MESH_MAX_Y cfg < y"
  shows "get_z_correction cfg (Fin x) (Fin y) s = (Inr (Fin raise), [], s)"
  using assms
  by (auto simp: get_z_correction_def Let_def WITHIN_float_Fin return_op_def)

text \<open>
  Raise value 5 on the 3 by 3 grid, position \<open>(250, 50)\<close>.
\<close>

theorem get_z_correction_off_mesh_raise_witness:
  "UBL_Z_RAISE_WHEN_OFF_MESH (grid3 (Some 5)) = Some 5
   \<and> MESH_MAX_X (grid3 (Some 5)) < 250
   \<and> get_z_correction (grid3 (Some 5)) (Fin 250) (Fin 50) scenario_mesh
        = (Inr (Fin 5), [], scenario_mesh)"
  using get_z_correction_off_mesh_raise [where cfg="grid3 (Some 5)" and raise=5 and x=250
      and y=50 and s=scenario_mesh]
  by (simp add: grid3_fields)

section \<open>Validity of the mesh\<close>

text \<open>
  Claim C7. \<open>mesh_is_valid\<close> returns true exactly when no mesh point
  \<open>z_values[x][y]\<close> with \<open>0 \<le> x < GRID_MAX_POINTS_X\<close> and
  \<open>0 \<le> y < GRID_MAX_POINTS_Y\<close> is NaN (\<open>isnan\<close> is the only test, so an infinite
  value counts as defined). In particular, on a valid configuration with every mesh
  point NaN, \<open>mesh_is_valid\<close> returns false and \<open>get_z_correction\<close> returns
  \<open>0.0\<close> at every position within the mesh bounds.
\<close>

theorem mesh_is_valid_iff_no_nan:
  "result_of (mesh_is_valid cfg s) =
     Inr (\<forall>x y. int x < GRID_MAX_POINTS_X cfg \<and> int y < GRID_MAX_POINTS_Y cfg
              \<longrightarrow> \<not> isnan (z_values s x y))
   \<and> (valid_config cfg \<and> (\<forall>x y. z_values s x y = NaN)
        \<and> MESH_MIN_X cfg \<le> px \<and> px \<le> MESH_MAX_X cfg
        \<and> MESH_MIN_Y cfg \<le> py \<and> py \<le> MESH_MAX_Y cfg
      \<longrightarrow> result_of (mesh_is_valid cfg s) = Inr False
          \<and> result_of (get_z_correction cfg (Fin px) (Fin py) s) = Inr (Fin 0))"
proof -
  have a: "result_of (mesh_is_valid cfg s) =
     Inr (\<forall>x y. int x < GRID_MAX_POINTS_X cfg \<and> int y < GRID_MAX_POINTS_Y cfg
              \<longrightarrow> \<not> isnan (z_values s x y))"
    using mesh_is_valid_x_result [of cfg 0 s] by (simp add: mesh_is_valid_def)
  have b: "result_of (mesh_is_valid cfg s) = Inr False
          \<and> result_of (get_z_correction cfg (Fin px) (Fin py) s) = Inr (Fin 0)"
    if v: "valid_config cfg" and n: "\<forall>x y. z_values s x y = NaN"
      and w: "MESH_MIN_X cfg \<le> px \<and> px \<le> MESH_MAX_X cfg
        \<and> MESH_MIN_Y cfg \<le> py \<and> py \<le> MESH_MAX_Y cfg"
  proof
    have "int 0 < GRID_MAX_POINTS_X cfg \<and> int 0 < GRID_MAX_POINTS_Y cfg \<and> isnan (z_values s 0 0)"
      using grid_bounds [OF v] n by simp
    then have "\<not> (\<forall>x y. int x < GRID_MAX_POINTS_X cfg \<and> int y < GRID_MAX_POINTS_Y cfg
              \<longrightarrow> \<not> isnan (z_values s x y))"
      by blast
    then show "result_of (mesh_is_valid cfg s) = Inr False"
      by (simp add: a)
    have r: "UBL_Z_RAISE_WHEN_OFF_MESH cfg = None
      \<or> (WITHIN_float (Fin px) (Fin (MESH_MIN_X cfg)) (Fin (MESH_MAX_X cfg))
        \<and> WITHIN_float (Fin py) (Fin (MESH_MIN_Y cfg)) (Fin (MESH_MAX_Y cfg)))"
      using w by (simp add: WITHIN_float_Fin)
    show "result_of (get_z_correction cfg (Fin px) (Fin py) s) = Inr (Fin 0)"
      using interpolation_nan_is_zero [OF v r refl refl refl refl, of s] n
      by (simp add: result_of_def)
  qed
  show ?thesis using a b by blast
qed


text \<open>
  The 3 by 3 grid with every point NaN: not valid, and the correction at
  \<open>(50, 120)\<close> is 0. With every point 0 the mesh is valid.
\<close>

theorem mesh_is_valid_iff_no_nan_witness:
  "valid_config (grid3 None) \<and> (\<forall>x y. z_values all_nan_mesh x y = NaN)
   \<and> MESH_MIN_X (grid3 None) \<le> 50 \<and> 50 \<le> MESH_MAX_X (grid3 None)
   \<and> MESH_MIN_Y (grid3 None) \<le> 120 \<and> 120 \<le> MESH_MAX_Y (grid3 None)
   \<and> result_of (mesh_is_valid (grid3 None) all_nan_mesh) = Inr False
   \<and> result_of (get_z_correction (grid3 None) (Fin 50) (Fin 120) all_nan_mesh) = Inr (Fin 0)
   \<and> result_of (mesh_is_valid (grid3 None) (all_nan_mesh\<lparr>z_values := (\<lambda>x y. Fin 0)\<rparr>)) = Inr True"
  using mesh_is_valid_iff_no_nan [of "grid3 None" all_nan_mesh 50 120]
    mesh_is_valid_iff_no_nan [of "grid3 None" "all_nan_mesh\<lparr>z_values := (\<lambda>x y. Fin 0)\<rparr>" 50 120]
  by (auto simp add: grid3_valid grid3_fields all_nan_mesh_def intro: exI [of _ 0])

section \<open>Queries: no write, no read out of bounds\<close>

lemma interpolate_cell_state: "state_of (interpolate_cell cfg rx ry cx cy s) = s"
  by (simp add: interpolate_cell_def Let_def bind_op_def read_z_def return_op_def state_of_def)

lemma interpolate_cell_det:
  "z_values s = z_values t \<Longrightarrow>
   result_of (interpolate_cell cfg rx ry cx cy s) = result_of (interpolate_cell cfg rx ry cx cy t)"
  by (simp add: interpolate_cell_def Let_def bind_op_def read_z_def return_op_def result_of_def)

lemma get_z_correction_state: "state_of (get_z_correction cfg rx ry s) = s"
  using interpolate_cell_state [of cfg rx ry _ _ s]
  by (simp add: get_z_correction_def Let_def return_op_def state_of_def split: option.splits)

lemma get_z_correction_det:
  "z_values s = z_values t \<Longrightarrow>
   result_of (get_z_correction cfg rx ry s) = result_of (get_z_correction cfg rx ry t)"
  using interpolate_cell_det [of s t cfg rx ry]
  by (simp add: get_z_correction_def Let_def return_op_def result_of_def split: option.splits)

text \<open>The writer, for contrast: \<open>set_z\<close> does change the state.\<close>

lemma set_z_writes:
  "in_mesh cfg (sint px) (sint py) \<Longrightarrow>
   z_values (state_of (set_z cfg px py z s)) (nat (sint px)) (nat (sint py)) = z"
  by (simp add: set_z_def state_of_def)

lemma helper_x_state: "state_of (z_correction_for_x_on_horizontal_mesh_line cfg rx x_i y_i s) = s"
  by (simp add: z_correction_for_x_on_horizontal_mesh_line_def Let_def bind_op_def read_z_def
      return_op_def state_of_def)

lemma helper_y_state: "state_of (z_correction_for_y_on_vertical_mesh_line cfg ry x_i y_i s) = s"
  by (simp add: z_correction_for_y_on_vertical_mesh_line_def Let_def bind_op_def read_z_def
      return_op_def state_of_def)

text \<open>
  Claim C10. \<open>get_z_correction\<close>, \<open>mesh_is_valid\<close> and the two single-axis helpers
  leave the state (\<open>z_values\<close> and \<open>storage_slot\<close>) exactly as they found it, on every
  configuration and for all arguments. Their results depend on the state only through
  \<open>z_values\<close>: two calls with the same arguments on states with the same mesh contents
  return the same result. The lookups \<open>get_cell_index_x/y\<close>,
  \<open>find_closest_x/y_index\<close> and \<open>mesh_index_to_xpos/ypos\<close> take no state at all: the
  configuration and the argument determine their value.
\<close>

theorem queries_do_not_modify_mesh:
  "state_of (get_z_correction cfg rx0 ry0 s) = s
   \<and> state_of (mesh_is_valid cfg s) = s
   \<and> state_of (z_correction_for_x_on_horizontal_mesh_line cfg rx0 x_i y_i s) = s
   \<and> state_of (z_correction_for_y_on_vertical_mesh_line cfg ry0 x_i y_i s) = s
   \<and> (z_values s = z_values t \<longrightarrow>
        result_of (get_z_correction cfg rx0 ry0 s) = result_of (get_z_correction cfg rx0 ry0 t)
        \<and> result_of (mesh_is_valid cfg s) = result_of (mesh_is_valid cfg t))"
  using get_z_correction_state [of cfg rx0 ry0 s] mesh_is_valid_x_state [of cfg 0 s]
    helper_x_state [of cfg rx0 x_i y_i s] helper_y_state [of cfg ry0 x_i y_i s]
    get_z_correction_det [of s t cfg rx0 ry0] mesh_is_valid_x_det [of s t cfg 0]
  by (simp add: mesh_is_valid_def)

text \<open>
  The scenario mesh and the same mesh with another storage slot.
\<close>

theorem queries_do_not_modify_mesh_witness:
  "z_values scenario_mesh = z_values (scenario_mesh\<lparr>storage_slot := 3\<rparr>)
   \<and> state_of (get_z_correction (grid3 None) (Fin 50) (Fin 50) scenario_mesh) = scenario_mesh
   \<and> state_of (mesh_is_valid (grid3 None) scenario_mesh) = scenario_mesh
   \<and> result_of (get_z_correction (grid3 None) (Fin 50) (Fin 50) scenario_mesh)
       = result_of (get_z_correction (grid3 None) (Fin 50) (Fin 50) (scenario_mesh\<lparr>storage_slot := 3\<rparr>))
   \<and> result_of (mesh_is_valid (grid3 None) scenario_mesh)
       = result_of (mesh_is_valid (grid3 None) (scenario_mesh\<lparr>storage_slot := 3\<rparr>))"
  using queries_do_not_modify_mesh [where cfg="grid3 None" and ?rx0.0="Fin 50" and ?ry0.0="Fin 50"
      and s=scenario_mesh and t="scenario_mesh\<lparr>storage_slot := 3\<rparr>"]
  by simp

lemma helper_x_eq:
  assumes "1 \<le> GRID_MAX_POINTS_X cfg"
    and "0 \<le> x_i \<and> x_i \<le> GRID_MAX_POINTS_X cfg - 1"
    and "0 \<le> y_i \<and> y_i \<le> GRID_MAX_POINTS_Y cfg - 1"
  shows "\<exists>v. z_correction_for_x_on_horizontal_mesh_line cfg rx x_i y_i s
     = (Inr v, [(x_i, y_i), (min x_i (GRID_MAX_POINTS_X cfg - 2) + 1, y_i)], s)"
proof -
  have "in_mesh cfg x_i y_i" "in_mesh cfg (min x_i (GRID_MAX_POINTS_X cfg - 2) + 1) y_i"
    using assms by (auto simp: in_mesh_def)
  then show ?thesis using assms
    by (simp add: z_correction_for_x_on_horizontal_mesh_line_def Let_def WITHIN_def
        bind_read_z return_op_def)
qed

lemma helper_y_eq:
  assumes "1 \<le> GRID_MAX_POINTS_Y cfg"
    and "0 \<le> x_i \<and> x_i \<le> GRID_MAX_POINTS_X cfg - 1"
    and "0 \<le> y_i \<and> y_i \<le> GRID_MAX_POINTS_Y cfg - 1"
  shows "\<exists>v. z_correction_for_y_on_vertical_mesh_line cfg ry x_i y_i s
     = (Inr v, [(x_i, y_i), (x_i, min y_i (GRID_MAX_POINTS_Y cfg - 2) + 1)], s)"
proof -
  have "in_mesh cfg x_i y_i" "in_mesh cfg x_i (min y_i (GRID_MAX_POINTS_Y cfg - 2) + 1)"
    using assms by (auto simp: in_mesh_def)
  then show ?thesis using assms
    by (simp add: z_correction_for_y_on_vertical_mesh_line_def Let_def WITHIN_def
        bind_read_z return_op_def)
qed

lemma helper_off:
  assumes "\<not> ((0 \<le> x_i \<and> x_i \<le> GRID_MAX_POINTS_X cfg - 1)
         \<and> (0 \<le> y_i \<and> y_i \<le> GRID_MAX_POINTS_Y cfg - 1))"
  shows "z_correction_for_x_on_horizontal_mesh_line cfg rx x_i y_i s
           = (Inr (off_mesh_value cfg), [], s)"
    and "z_correction_for_y_on_vertical_mesh_line cfg ry x_i y_i s
           = (Inr (off_mesh_value cfg), [], s)"
  using assms
  by (auto simp: z_correction_for_x_on_horizontal_mesh_line_def
      z_correction_for_y_on_vertical_mesh_line_def WITHIN_def return_op_def)

lemma helper_x_safe:
  assumes "valid_config cfg"
  shows "result_of (z_correction_for_x_on_horizontal_mesh_line cfg rx x_i y_i s) \<noteq> Inl OutOfBounds
    \<and> (\<forall>p \<in> set (reads_of (z_correction_for_x_on_horizontal_mesh_line cfg rx x_i y_i s)).
          in_mesh cfg (fst p) (snd p))"
proof (cases "(0 \<le> x_i \<and> x_i \<le> GRID_MAX_POINTS_X cfg - 1)
       \<and> (0 \<le> y_i \<and> y_i \<le> GRID_MAX_POINTS_Y cfg - 1)")
  case True
  then obtain v where "z_correction_for_x_on_horizontal_mesh_line cfg rx x_i y_i s
     = (Inr v, [(x_i, y_i), (min x_i (GRID_MAX_POINTS_X cfg - 2) + 1, y_i)], s)"
    using helper_x_eq [OF grid_bounds(1) [OF assms], of x_i y_i rx s] by blast
  then show ?thesis using True grid_bounds [OF assms]
    by (auto simp: result_of_def reads_of_def in_mesh_def)
next
  case False
  then show ?thesis
    using helper_off(1) [OF False, of rx s]
    by (simp add: result_of_def reads_of_def)
qed

lemma helper_y_safe:
  assumes "valid_config cfg"
  shows "result_of (z_correction_for_y_on_vertical_mesh_line cfg ry x_i y_i s) \<noteq> Inl OutOfBounds
    \<and> (\<forall>p \<in> set (reads_of (z_correction_for_y_on_vertical_mesh_line cfg ry x_i y_i s)).
          in_mesh cfg (fst p) (snd p))"
proof (cases "(0 \<le> x_i \<and> x_i \<le> GRID_MAX_POINTS_X cfg - 1)
       \<and> (0 \<le> y_i \<and> y_i \<le> GRID_MAX_POINTS_Y cfg - 1)")
  case True
  then obtain v where "z_correction_for_y_on_vertical_mesh_line cfg ry x_i y_i s
     = (Inr v, [(x_i, y_i), (x_i, min y_i (GRID_MAX_POINTS_Y cfg - 2) + 1)], s)"
    using helper_y_eq [OF grid_bounds(3) [OF assms], of x_i y_i ry s] by blast
  then show ?thesis using True grid_bounds [OF assms]
    by (auto simp: result_of_def reads_of_def in_mesh_def)
next
  case False
  then show ?thesis
    using helper_off(2) [OF False, of ry s]
    by (simp add: result_of_def reads_of_def)
qed

lemma get_z_correction_safe:
  assumes "valid_config cfg"
  shows "result_of (get_z_correction cfg rx ry s) \<noteq> Inl OutOfBounds
    \<and> (\<forall>p \<in> set (reads_of (get_z_correction cfg rx ry s)). in_mesh cfg (fst p) (snd p))"
proof (cases "UBL_Z_RAISE_WHEN_OFF_MESH cfg = None
     \<or> (WITHIN_float rx (Fin (MESH_MIN_X cfg)) (Fin (MESH_MAX_X cfg))
        \<and> WITHIN_float ry (Fin (MESH_MIN_Y cfg)) (Fin (MESH_MAX_Y cfg)))")
  case True
  note n = grid_bounds [OF assms]
  note m = cell_in_mesh [OF assms, of rx ry]
  note ic1 = interpolate_cell_eq(1) [OF m n(1) n(3) refl refl]
  note ic2 = interpolate_cell_eq(2) [OF m n(1) n(3) refl refl, where rx=rx and ry=ry and s=s]
  show ?thesis
    unfolding get_z_correction_interpolates [OF True] ic2 Let_def
    using m ic1 by (simp add: result_of_def reads_of_def)
next
  case False
  then show ?thesis
    by (auto simp: get_z_correction_def Let_def return_op_def result_of_def reads_of_def
        split: option.splits)
qed

text \<open>
  Claim C9. On a valid configuration, for every position (finite or not) and for all
  index arguments, \<open>get_z_correction\<close> and the two single-axis helpers never read
  \<open>z_values\<close> out of bounds: no call ends in the fault \<open>OutOfBounds\<close>, and every index
  pair in the list of reads lies in
  \<open>[0, GRID_MAX_POINTS_X - 1] \<times> [0, GRID_MAX_POINTS_Y - 1]\<close>. (The helpers read nothing
  when an index argument fails the guard.)
\<close>

theorem z_values_reads_in_bounds:
  assumes "valid_config cfg"
  shows "result_of (get_z_correction cfg rx0 ry0 s) \<noteq> Inl OutOfBounds
    \<and> (\<forall>p \<in> set (reads_of (get_z_correction cfg rx0 ry0 s)). in_mesh cfg (fst p) (snd p))
    \<and> result_of (z_correction_for_x_on_horizontal_mesh_line cfg rx0 x_i y_i s) \<noteq> Inl OutOfBounds
    \<and> (\<forall>p \<in> set (reads_of (z_correction_for_x_on_horizontal_mesh_line cfg rx0 x_i y_i s)).
          in_mesh cfg (fst p) (snd p))
    \<and> result_of (z_correction_for_y_on_vertical_mesh_line cfg ry0 x_i y_i s) \<noteq> Inl OutOfBounds
    \<and> (\<forall>p \<in> set (reads_of (z_correction_for_y_on_vertical_mesh_line cfg ry0 x_i y_i s)).
          in_mesh cfg (fst p) (snd p))"
  using get_z_correction_safe [OF assms, of rx0 ry0 s] helper_x_safe [OF assms, of rx0 x_i y_i s]
    helper_y_safe [OF assms, of ry0 x_i y_i s]
  by blast

lemma grid3_read_last_cell:
  "get_z_correction (grid3 None) (Fin 250) (Fin 50) scenario_mesh
     = (Inr (Fin 0), [(2, 0), (2, 0), (2, 1), (2, 1)], scenario_mesh)"
proof -
  have cx: "sint (get_cell_index_x (grid3 None) (Fin 250)) = 2"
    by (simp add: grid3_cell_x)
  have cy: "sint (get_cell_index_y (grid3 None) (Fin 50)) = 0"
    by (simp add: grid3_cell_y)
  have r: "UBL_Z_RAISE_WHEN_OFF_MESH (grid3 None) = None
     \<or> (WITHIN_float (Fin 250) (Fin (MESH_MIN_X (grid3 None))) (Fin (MESH_MAX_X (grid3 None)))
        \<and> WITHIN_float (Fin 50) (Fin (MESH_MIN_Y (grid3 None))) (Fin (MESH_MAX_Y (grid3 None))))"
    by (simp add: grid3_fields)
  have c: "2 = min (2::int) (GRID_MAX_POINTS_X (grid3 None) - 2) + 1"
     "1 = min (0::int) (GRID_MAX_POINTS_Y (grid3 None) - 2) + 1"
    by (simp_all add: grid3_fields)
  show ?thesis
    by (rule interpolation_nan_is_zero [OF grid3_valid r cx [symmetric] cy [symmetric] c])
       (simp add: scenario_values)
qed



text \<open>
  On the 3 by 3 grid, a query beyond \<open>MESH_MAX_X\<close> uses the clamped index 2, whose
  capped successor is 2 again; the helpers at index \<open>(2, 2)\<close> read the last element
  twice.
\<close>

theorem z_values_reads_in_bounds_witness:
  "valid_config (grid3 None)
   \<and> result_of (get_z_correction (grid3 None) (Fin 250) (Fin 50) scenario_mesh) \<noteq> Inl OutOfBounds
   \<and> reads_of (get_z_correction (grid3 None) (Fin 250) (Fin 50) scenario_mesh)
        = [(2, 0), (2, 0), (2, 1), (2, 1)]
   \<and> in_mesh (grid3 None) 2 0 \<and> in_mesh (grid3 None) 2 1
   \<and> result_of (z_correction_for_x_on_horizontal_mesh_line (grid3 None) (Fin 250) 2 2 scenario_mesh)
        \<noteq> Inl OutOfBounds
   \<and> reads_of (z_correction_for_x_on_horizontal_mesh_line (grid3 None) (Fin 250) 2 2 scenario_mesh)
        = [(2, 2), (2, 2)]
   \<and> result_of (z_correction_for_y_on_vertical_mesh_line (grid3 None) (Fin 50) 2 2 scenario_mesh)
        \<noteq> Inl OutOfBounds
   \<and> reads_of (z_correction_for_y_on_vertical_mesh_line (grid3 None) (Fin 50) 2 2 scenario_mesh)
        = [(2, 2), (2, 2)]
   \<and> in_mesh (grid3 None) 2 2"
proof -
  obtain v where hx: "z_correction_for_x_on_horizontal_mesh_line (grid3 None) (Fin 250) 2 2 scenario_mesh
      = (Inr v, [(2, 2), (2, 2)], scenario_mesh)"
    using helper_x_eq [where cfg="grid3 None" and x_i=2 and y_i=2 and rx="Fin 250" and s=scenario_mesh]
    by (auto simp: grid3_fields)
  obtain w where hy: "z_correction_for_y_on_vertical_mesh_line (grid3 None) (Fin 50) 2 2 scenario_mesh
      = (Inr w, [(2, 2), (2, 2)], scenario_mesh)"
    using helper_y_eq [where cfg="grid3 None" and x_i=2 and y_i=2 and ry="Fin 50" and s=scenario_mesh]
    by (auto simp: grid3_fields)
  show ?thesis
    using z_values_reads_in_bounds [where cfg="grid3 None" and ?rx0.0="Fin 250" and ?ry0.0="Fin 50"
        and s=scenario_mesh and x_i=2 and y_i=2]
    by (simp add: grid3_valid grid3_read_last_cell hx hy reads_of_def result_of_def)
qed

section \<open>Cell index: range and rounding\<close>








section \<open>Z correction at a grid point\<close>













section \<open>Bilinear interpolation\<close>










section \<open>Index to position and back\<close>

lemma grid3_lines:
  "fadd (Fin 0) (fmul (Fin 0) (Fin 100)) = Fin 0"
  "fadd (Fin 0) (fmul (Fin 1) (Fin 100)) = Fin 100"
  "fadd (Fin 0) (fmul (Fin 2) (Fin 100)) = Fin 200"
  by (simp_all add: binary32_eval)








end
